theory Spec2Isabelle
  imports Complex_Main "HOL-Library.AList" "HOL-Library.Multiset"
begin

section \<open>Python numbers and numpy masked arrays\<close>

text \<open>
  The scripts compute with Python and numpy floats. A float is modelled as a real number,
  the value \<open>NaN\<close>, or positive infinity (the quotient of a positive number by zero in
  numpy); rounding of sums and products is not modelled.
\<close>

datatype pyfloat = NaN | PInf | Fl real

fun fadd :: "pyfloat \<Rightarrow> pyfloat \<Rightarrow> pyfloat" where
  "fadd (Fl x) (Fl y) = Fl (x + y)"
| "fadd NaN _ = NaN"
| "fadd _ NaN = NaN"
| "fadd _ _ = PInf"

text \<open>Python's \<open>x >= y\<close> on floats: every comparison with NaN is false.\<close>

fun fge :: "pyfloat \<Rightarrow> pyfloat \<Rightarrow> bool" where
  "fge (Fl x) (Fl y) = (y \<le> x)"
| "fge NaN _ = False"
| "fge _ NaN = False"
| "fge PInf _ = True"
| "fge (Fl x) PInf = False"

text \<open>Python's \<open>int(x)\<close> on a finite float truncates towards zero.\<close>

definition py_int :: "real \<Rightarrow> int" where
  "py_int x = (if 0 \<le> x then \<lfloor>x\<rfloor> else \<lceil>x\<rceil>)"

text \<open>
  \<open>rasterio.mask.mask(..., filled=False)\<close> returns a \<open>numpy.ma.MaskedArray\<close>: every cell
  has its raw value and a mask bit. The mask bit is set for cells that hold the raster's
  no-data sentinel and for cells outside the masking shape.
\<close>

datatype cell = Cell (raw: pyfloat) (masked: bool)

text \<open>
  The result of a reduction or of indexing one element of a masked array: the constant
  \<open>numpy.ma.masked\<close>, or a number.
\<close>

datatype ma_scalar = MaskedConst | Num pyfloat

text \<open>\<open>a[~np.isnan(a)]\<close>: the cells of the flattened array whose raw value is not NaN,
  masked or not.\<close>

definition isnan_filter :: "cell list \<Rightarrow> cell list" where
  "isnan_filter cs = filter (\<lambda>c. raw c \<noteq> NaN) cs"

text \<open>\<open>MaskedArray.sum()\<close>: \<open>masked\<close> when every cell is masked, else the sum of
  the cells that are not masked.\<close>

definition ma_sum :: "cell list \<Rightarrow> ma_scalar" where
  "ma_sum cs =
     (if list_all masked cs then MaskedConst
      else Num (foldr fadd (map raw (filter (\<lambda>c. \<not> masked c) cs)) (Fl 0)))"

text \<open>\<open>float(x)\<close>: numpy converts the masked constant to NaN (with a warning).\<close>

fun to_float :: "ma_scalar \<Rightarrow> pyfloat" where
  "to_float MaskedConst = NaN"
| "to_float (Num v) = v"

text \<open>\<open>x > 0\<close> as a condition: false for the masked constant and for NaN.\<close>

fun gt_zero :: "ma_scalar \<Rightarrow> bool" where
  "gt_zero (Num (Fl x)) = (0 < x)"
| "gt_zero (Num PInf) = True"
| "gt_zero _ = False"

datatype error =
  ValueError | ZeroDivisionError | KeyError | TransformNotInvertibleError | EmptyGeometryError

section \<open>09_add_worldpop_data.py: population at a POI and in the window around it\<close>

text \<open>The affine transform of a raster, \<open>Affine(a, b, c, d, e, f)\<close>:
  \<open>x = a*col + b*row + c\<close>, \<open>y = d*col + e*row + f\<close>.\<close>

record affine =
  aff_a :: real
  aff_b :: real
  aff_c :: real
  aff_d :: real
  aff_e :: real
  aff_f :: real

text \<open>\<open>~transform * (x, y)\<close>: the inverse transform applied to a point, giving
  fractional \<open>(col, row)\<close>; inverting a degenerate transform raises.\<close>

definition inverse_apply :: "affine \<Rightarrow> real \<times> real \<Rightarrow> error + real \<times> real" where
  "inverse_apply t p =
     (let det = aff_a t * aff_e t - aff_b t * aff_d t in
      if det = 0 then Inl TransformNotInvertibleError
      else
        let idet = 1 / det;
            ra = aff_e t * idet; rb = - aff_b t * idet;
            rd = - aff_d t * idet; re = aff_a t * idet;
            rc = - aff_c t * ra - aff_f t * rb;
            rf = - aff_c t * rd - aff_f t * re
        in Inr (fst p * ra + snd p * rb + rc, fst p * rd + snd p * re + rf))"

text \<open>One entry of \<open>clipped_data\<close>: the clipped band, its transform and
  \<open>resolution[0]\<close>.\<close>

record data_info =
  data :: "cell list list"
  transform :: affine
  resolution :: real

definition shape0 :: "cell list list \<Rightarrow> int" where
  "shape0 dat = int (length dat)"

definition shape1 :: "cell list list \<Rightarrow> int" where
  "shape1 dat = (case dat of [] \<Rightarrow> 0 | r # _ \<Rightarrow> int (length r))"

text \<open>\<open>pop_value = data[row, col]; if np.isnan(pop_value): pop_value = 0;
  float(pop_value)\<close>. A masked cell gives the masked constant, which is not NaN as a
  condition and becomes NaN under \<open>float\<close>.\<close>

definition at_location :: "cell \<Rightarrow> pyfloat" where
  "at_location c = (if masked c then NaN else if raw c = NaN then Fl 0 else raw c)"

text \<open>\<open>max(1, int(0.002 / resolution))\<close>; Python float division by zero raises.\<close>

definition buffer_cells :: "real \<Rightarrow> error + int" where
  "buffer_cells res =
     (if res = 0 then Inl ZeroDivisionError else Inr (max 1 (py_int (0.002 / res))))"

text \<open>The four bounds \<open>(r_min, r_max, c_min, c_max)\<close> of the window.\<close>

definition window_bounds :: "int \<Rightarrow> int \<Rightarrow> int \<Rightarrow> int \<Rightarrow> int \<Rightarrow> int \<times> int \<times> int \<times> int" where
  "window_bounds nrows ncols row col bc =
     (max 0 (row - bc), min nrows (row + bc + 1),
      max 0 (col - bc), min ncols (col + bc + 1))"

text \<open>\<open>xs[lo:hi]\<close> for bounds that are not negative.\<close>

definition py_slice :: "'a list \<Rightarrow> int \<Rightarrow> int \<Rightarrow> 'a list" where
  "py_slice xs lo hi = take (nat hi - nat lo) (drop (nat lo) xs)"

definition slice2d :: "'a list list \<Rightarrow> int \<Rightarrow> int \<Rightarrow> int \<Rightarrow> int \<Rightarrow> 'a list list" where
  "slice2d dat r_min r_max c_min c_max =
     map (\<lambda>r. py_slice r c_min c_max) (py_slice dat r_min r_max)"

text \<open>\<open>float(np.sum(buffer_data[~np.isnan(buffer_data)]))\<close>.\<close>

definition buffer_sum :: "cell list list \<Rightarrow> pyfloat" where
  "buffer_sum buffer_data = to_float (ma_sum (isnan_filter (concat buffer_data)))"

text \<open>The body of the \<open>try\<close> block for one dataset and one POI at \<open>(poi_x, poi_y)\<close>:
  the pair of the values stored under \<open>_at_location\<close> and \<open>_in_buffer\<close>.\<close>

definition extract_try :: "data_info \<Rightarrow> real \<times> real \<Rightarrow> error + pyfloat \<times> pyfloat" where
  "extract_try di p =
     (case inverse_apply (transform di) p of
        Inl err \<Rightarrow> Inl err
      | Inr (colf, rowf) \<Rightarrow>
          let col = py_int colf; row = py_int rowf; dat = data di in
          if 0 \<le> row \<and> row < shape0 dat \<and> 0 \<le> col \<and> col < shape1 dat then
            (case buffer_cells (resolution di) of
               Inl err \<Rightarrow> Inl err
             | Inr bc \<Rightarrow>
                 (case window_bounds (shape0 dat) (shape1 dat) row col bc of
                    (r_min, r_max, c_min, c_max) \<Rightarrow>
                      Inr (at_location (dat ! nat row ! nat col),
                           buffer_sum (slice2d dat r_min r_max c_min c_max))))
          else Inr (Fl 0, Fl 0))"

text \<open>With the \<open>except\<close> branch: any exception stores 0.0 under both keys.\<close>

definition extract_dataset :: "data_info \<Rightarrow> real \<times> real \<Rightarrow> pyfloat \<times> pyfloat" where
  "extract_dataset di p =
     (case extract_try di p of Inl _ \<Rightarrow> (Fl 0, Fl 0) | Inr v \<Rightarrow> v)"

text \<open>A numpy 2D array is rectangular: every row has \<open>shape[1]\<close> cells.\<close>

definition rectangular :: "cell list list \<Rightarrow> bool" where
  "rectangular dat = list_all (\<lambda>r. int (length r) = shape1 dat) dat"

section \<open>Features and output records\<close>

text \<open>A feature geometry as loaded from the POI file: a point or a polygon ring.\<close>

datatype geometry = Point real real | Polygon "(real \<times> real) list"

text \<open>
  An attribute of a feature row read with \<open>row.get(key, 'Unknown')\<close>: the column can be
  absent from the frame, the value can be null, or it is a string.
\<close>

datatype attr = Absent | Null | Text string

fun get_or_unknown :: "attr \<Rightarrow> string option" where
  "get_or_unknown Absent = Some ''Unknown''"
| "get_or_unknown Null = None"
| "get_or_unknown (Text s) = Some s"

text \<open>A row of a feature table, with its index label \<open>idx\<close>.\<close>

record 'g feature =
  idx :: nat
  name :: attr
  category :: attr
  geometry :: 'g

text \<open>The five keys every output dictionary starts with.\<close>

record base_result =
  poi_id :: nat
  poi_name :: "string option"
  poi_category :: "string option"
  latitude :: real
  longitude :: real

text \<open>An output dictionary of \<open>11_worldpop_population.py\<close>. The key
  \<open>estimation_method\<close> exists only on the fallback path.\<close>

record pop_record = base_result +
  buffer_distance :: int
  population_total :: pyfloat
  population_density :: pyfloat
  estimation_method :: "string option"

text \<open>An output dictionary of \<open>09_add_worldpop_data.py\<close>: the base keys and one
  \<open>_at_location\<close> and one \<open>_in_buffer\<close> key per dataset.\<close>

record poi_data = base_result +
  dataset_values :: "(string \<times> pyfloat) list"

section \<open>09_add_worldpop_data.py: \<open>create_poi_population_analysis\<close>\<close>

text \<open>The POI's coordinates: a point's own, the centroid of anything else. The
  centroid is computed by the geometry library.\<close>

definition poi_xy :: "(geometry \<Rightarrow> real \<times> real) \<Rightarrow> geometry \<Rightarrow> real \<times> real" where
  "poi_xy centroid g = (case g of Point x y \<Rightarrow> (x, y) | Polygon vs \<Rightarrow> centroid g)"

definition poi_population ::
  "(geometry \<Rightarrow> real \<times> real) \<Rightarrow> (string \<times> data_info) list \<Rightarrow> geometry feature \<Rightarrow> poi_data" where
  "poi_population centroid clipped_data poi =
     (let (poi_x, poi_y) = poi_xy centroid (geometry poi) in
      \<lparr>poi_id = idx poi,
       poi_name = get_or_unknown (name poi),
       poi_category = get_or_unknown (category poi),
       latitude = poi_y,
       longitude = poi_x,
       dataset_values =
         concat (map (\<lambda>(dataset_name, di).
                   (case extract_dataset di (poi_x, poi_y) of
                      (at_loc, in_buf) \<Rightarrow>
                        [(dataset_name @ ''_at_location'', at_loc),
                         (dataset_name @ ''_in_buffer'', in_buf)]))
                 clipped_data)\<rparr>)"

definition create_poi_population_analysis ::
  "(geometry \<Rightarrow> real \<times> real) \<Rightarrow> (string \<times> data_info) list \<Rightarrow> geometry feature list
     \<Rightarrow> poi_data list option" where
  "create_poi_population_analysis centroid clipped_data pois =
     (if clipped_data = [] then None
      else Some (map (poi_population centroid clipped_data) pois))"

section \<open>11_worldpop_population.py: buffers\<close>

text \<open>
  Geometries derived by the geometry library are recorded by the calls that produce
  them: \<open>to_crs\<close> and \<open>buffer\<close>. Neither call checks the distance.
\<close>

datatype shape = Geom geometry | ToCrs string shape | Buffer shape int

text \<open>A row of a buffer table: the feature's columns, \<open>buffer_distance\<close> and
  \<open>poi_id\<close>.\<close>

record 'g buffer_row = "'g feature" +
  buffer_distance_col :: int
  poi_id_col :: nat

text \<open>The geometry of one buffer: the feature projected to UTM zone 43N, buffered, and
  projected back to WGS84.\<close>

definition buffered :: "geometry \<Rightarrow> int \<Rightarrow> shape" where
  "buffered g distance = ToCrs ''EPSG:4326'' (Buffer (ToCrs ''EPSG:32643'' (Geom g)) distance)"

definition buffer_table :: "geometry feature list \<Rightarrow> int \<Rightarrow> shape buffer_row list" where
  "buffer_table pois distance =
     map (\<lambda>(i, poi).
            \<lparr>idx = idx poi, name = name poi, category = category poi,
             geometry = buffered (geometry poi) distance,
             buffer_distance_col = distance,
             poi_id_col = i\<rparr>)
         (enumerate 0 pois)"

text \<open>The dictionary \<open>buffer_results\<close>, keyed by the distance \<open>d\<close> of its key
  \<open>buffer_{d}m\<close>; assigning to a key that exists replaces its value in place.\<close>

definition create_buffer_zones ::
  "geometry feature list \<Rightarrow> int list \<Rightarrow> (int \<times> shape buffer_row list) list" where
  "create_buffer_zones pois buffer_distances =
     fold (\<lambda>distance buffer_results.
             AList.update distance (buffer_table pois distance) buffer_results)
          buffer_distances []"

section \<open>11_worldpop_population.py: extraction from the raster\<close>

text \<open>\<open>total / (np.pi * distance**2 / 10000)\<close> for a positive total: numpy gives
  infinity when the divisor is zero.\<close>

fun per_hectare :: "pyfloat \<Rightarrow> int \<Rightarrow> pyfloat" where
  "per_hectare (Fl x) distance =
     (if distance = 0 then PInf else Fl (x / (pi * (real_of_int distance)\<^sup>2 / 10000)))"
| "per_hectare v distance = v"

text \<open>\<open>valid_data.sum() if len(valid_data) > 0 else 0\<close>.\<close>

definition total_population :: "cell list list \<Rightarrow> ma_scalar" where
  "total_population clipped =
     (let valid_data = isnan_filter (concat clipped) in
      if length valid_data > 0 then ma_sum valid_data else Num (Fl 0))"

text \<open>
  The dictionary appended for one buffer row: the \<open>try\<close> block and the \<open>except\<close>
  branch build the same keys and differ in \<open>population_total\<close> and
  \<open>population_density\<close> only. \<open>c\<close> is the pair of \<open>row.geometry.centroid.x\<close> and
  \<open>row.geometry.centroid.y\<close>.
\<close>

definition row_record :: "shape buffer_row \<Rightarrow> real \<times> real \<Rightarrow> pyfloat \<Rightarrow> pyfloat \<Rightarrow> pop_record" where
  "row_record row c pop_total density =
     \<lparr>poi_id = idx row,
      poi_name = get_or_unknown (name row),
      poi_category = get_or_unknown (category row),
      latitude = snd c,
      longitude = fst c,
      buffer_distance = buffer_distance_col row,
      population_total = pop_total,
      population_density = density,
      estimation_method = None\<rparr>"

text \<open>
  The \<open>try\<close> block for one buffer row (lines 201 to 218). \<open>mask_src\<close> is
  \<open>rasterio.mask.mask(src, [geom], crop=True, filled=False)\<close> on the open raster: the
  clipped band, or an exception (a shape that does not overlap the raster raises
  \<open>ValueError\<close>). \<open>centroid\<close> reads the coordinates of the centroid of the row's
  geometry; the geometry library raises for an empty geometry, which has none.
\<close>

definition extract_row_try ::
  "(shape \<Rightarrow> error + cell list list) \<Rightarrow> (shape \<Rightarrow> error + real \<times> real) \<Rightarrow> shape buffer_row
     \<Rightarrow> error + pop_record" where
  "extract_row_try mask_src centroid row =
     (case mask_src (geometry row) of
        Inl err \<Rightarrow> Inl err
      | Inr clipped \<Rightarrow>
          (case centroid (geometry row) of
             Inl err \<Rightarrow> Inl err
           | Inr c \<Rightarrow>
               (let total = total_population clipped in
                Inr (row_record row c (to_float total)
                       (if gt_zero total
                        then per_hectare (to_float total) (buffer_distance_col row)
                        else Fl 0)))))"

text \<open>
  With the \<open>except\<close> branch (lines 220 to 231). The branch reads the centroid again:
  every row has a geometry, so its \<open>hasattr\<close> test holds, and for an empty geometry
  the read raises a second time. That exception is not caught here: the result is
  \<open>Inl\<close> and no dictionary is appended.
\<close>

definition extract_row ::
  "(shape \<Rightarrow> error + cell list list) \<Rightarrow> (shape \<Rightarrow> error + real \<times> real) \<Rightarrow> shape buffer_row
     \<Rightarrow> error + pop_record" where
  "extract_row mask_src centroid row =
     (case extract_row_try mask_src centroid row of
        Inr result \<Rightarrow> Inr result
      | Inl e \<Rightarrow>
          (case centroid (geometry row) of
             Inl err \<Rightarrow> Inl err
           | Inr c \<Rightarrow> Inr (row_record row c (Fl 0) (Fl 0))))"

text \<open>The two loops over the buffer tables and their rows, in order: the list
  \<open>results\<close>, or the first exception that leaves a row's handler.\<close>

fun extract_rows ::
  "(shape \<Rightarrow> error + cell list list) \<Rightarrow> (shape \<Rightarrow> error + real \<times> real)
     \<Rightarrow> shape buffer_row list \<Rightarrow> error + pop_record list" where
  "extract_rows mask_src centroid [] = Inr []"
| "extract_rows mask_src centroid (row # rows) =
     (case extract_row mask_src centroid row of
        Inl err \<Rightarrow> Inl err
      | Inr result \<Rightarrow>
          (case extract_rows mask_src centroid rows of
             Inl err \<Rightarrow> Inl err
           | Inr results \<Rightarrow> Inr (result # results)))"

text \<open>The whole function. The outer \<open>except\<close> (lines 235 to 237) returns \<open>None\<close>
  when the raster cannot be opened and when an exception leaves a row's handler;
  otherwise there is one dictionary per row of every buffer table, in order.\<close>

definition extract_population_from_raster ::
  "(error + (shape \<Rightarrow> error + cell list list)) \<Rightarrow> (shape \<Rightarrow> error + real \<times> real)
     \<Rightarrow> (int \<times> shape buffer_row list) list \<Rightarrow> pop_record list option" where
  "extract_population_from_raster opened centroid buffer_zones =
     (case opened of
        Inl err \<Rightarrow> None
      | Inr mask_src \<Rightarrow>
          (case extract_rows mask_src centroid (concat (map snd buffer_zones)) of
             Inl err \<Rightarrow> None
           | Inr results \<Rightarrow> Some results))"

section \<open>11_worldpop_population.py: the fallback estimate\<close>

text \<open>\<open>u\<close> is the value drawn by \<open>np.random.random()\<close>, in \<open>[0, 1)\<close>.\<close>

definition estimate_population_simple :: "real \<Rightarrow> real \<Rightarrow> real \<Rightarrow> int \<Rightarrow> int" where
  "estimate_population_simple u lat lon buffer_meters =
     (let buffer_area_km2 = pi * (real_of_int buffer_meters / 1000)\<^sup>2;
          estimated_density = 6000;
          variation_factor = 0.8 + 0.4 * u;
          estimated_population = buffer_area_km2 * estimated_density * variation_factor
      in py_int estimated_population)"

definition estimate_record :: "real \<Rightarrow> base_result \<Rightarrow> int \<Rightarrow> pop_record" where
  "estimate_record u base_res distance =
     (let pop_estimate = estimate_population_simple u (latitude base_res) (longitude base_res)
                           distance in
      \<lparr>poi_id = poi_id base_res,
       poi_name = poi_name base_res,
       poi_category = poi_category base_res,
       latitude = latitude base_res,
       longitude = longitude base_res,
       buffer_distance = distance,
       population_total = Fl (real_of_int pop_estimate),
       population_density =
         (if pop_estimate > 0
          then Fl (real_of_int pop_estimate / (pi * (real_of_int distance)\<^sup>2 / 10000))
          else Fl 0),
       estimation_method = Some ''api_fallback''\<rparr>)"

text \<open>The inner loop over the distances; \<open>rnd k\<close> is the \<open>k\<close>-th number the random
  generator yields, and \<open>k\<close> counts the draws made so far.\<close>

fun estimates_for_poi :: "(nat \<Rightarrow> real) \<Rightarrow> nat \<Rightarrow> base_result \<Rightarrow> int list \<Rightarrow> pop_record list" where
  "estimates_for_poi rnd k base_res [] = []"
| "estimates_for_poi rnd k base_res (distance # ds) =
     estimate_record (rnd k) base_res distance # estimates_for_poi rnd (Suc k) base_res ds"

definition base_of :: "(geometry \<Rightarrow> real \<times> real) \<Rightarrow> geometry feature \<Rightarrow> base_result" where
  "base_of centroid poi =
     (let (lat, lon) =
            (case geometry poi of
               Point x y \<Rightarrow> (y, x)
             | Polygon vs \<Rightarrow> (snd (centroid (geometry poi)), fst (centroid (geometry poi))))
      in \<lparr>poi_id = idx poi,
          poi_name = get_or_unknown (name poi),
          poi_category = get_or_unknown (category poi),
          latitude = lat,
          longitude = lon\<rparr>)"

fun estimates_loop ::
  "(nat \<Rightarrow> real) \<Rightarrow> nat \<Rightarrow> (geometry \<Rightarrow> real \<times> real) \<Rightarrow> geometry feature list \<Rightarrow> int list
     \<Rightarrow> pop_record list" where
  "estimates_loop rnd k centroid [] buffer_distances = []"
| "estimates_loop rnd k centroid (poi # pois) buffer_distances =
     estimates_for_poi rnd k (base_of centroid poi) buffer_distances
     @ estimates_loop rnd (k + length buffer_distances) centroid pois buffer_distances"

definition create_population_estimates_api ::
  "(nat \<Rightarrow> real) \<Rightarrow> (geometry \<Rightarrow> real \<times> real) \<Rightarrow> geometry feature list \<Rightarrow> int list
     \<Rightarrow> pop_record list" where
  "create_population_estimates_api rnd centroid pois buffer_distances =
     estimates_loop rnd 0 centroid pois buffer_distances"

section \<open>11_worldpop_population.py: \<open>save_results\<close>\<close>

text \<open>
  The pivot table is indexed by the five base columns; its value columns are
  \<open>population_total\<close> and \<open>population_density\<close> for each buffer distance. A column is
  named here by the pair of the value's name and the distance \<open>d\<close>, for the flattened
  name \<open>{value}_{d}m\<close>. Rows with a null index value are left out by the grouping.
\<close>

type_synonym index_key = "nat \<times> string \<times> string \<times> real \<times> real"

definition index_of :: "pop_record \<Rightarrow> index_key option" where
  "index_of r =
     (case (poi_name r, poi_category r) of
        (Some n, Some c) \<Rightarrow> Some (poi_id r, n, c, latitude r, longitude r)
      | _ \<Rightarrow> None)"

definition value_of :: "string \<Rightarrow> pop_record \<Rightarrow> pyfloat" where
  "value_of column r =
     (if column = ''population_total'' then population_total r
      else if column = ''population_density'' then population_density r
      else NaN)"

definition value_columns :: "string list" where
  "value_columns = [''population_total'', ''population_density'']"

text \<open>\<open>aggfunc='first'\<close>: the first value of the group that is not NaN.\<close>

definition first_valid :: "pyfloat list \<Rightarrow> pyfloat" where
  "first_valid vs = (case filter (\<lambda>v. v \<noteq> NaN) vs of [] \<Rightarrow> NaN | v # _ \<Rightarrow> v)"

definition aggregate :: "pop_record list \<Rightarrow> index_key \<Rightarrow> string \<times> int \<Rightarrow> pyfloat" where
  "aggregate rows key col =
     first_valid (map (value_of (fst col))
                      (filter (\<lambda>r. index_of r = Some key \<and> buffer_distance r = snd col) rows))"

text \<open>\<open>round(0)\<close>: numpy rounds halves to the even neighbour.\<close>

definition round_half_even :: "real \<Rightarrow> real" where
  "round_half_even x =
     (let fl = \<lfloor>x\<rfloor>; frac = x - of_int fl in
      if frac < 1/2 then of_int fl
      else if 1/2 < frac then of_int (fl + 1)
      else if even fl then of_int fl else of_int (fl + 1))"

fun round0 :: "pyfloat \<Rightarrow> pyfloat" where
  "round0 (Fl x) = Fl (round_half_even x)"
| "round0 v = v"

text \<open>A row or a column whose aggregated values are all NaN is dropped.\<close>

definition has_row :: "pop_record list \<Rightarrow> index_key \<Rightarrow> bool" where
  "has_row rows key =
     list_ex (\<lambda>r. index_of r = Some key \<and>
                  (population_total r \<noteq> NaN \<or> population_density r \<noteq> NaN)) rows"

definition has_column :: "pop_record list \<Rightarrow> string \<times> int \<Rightarrow> bool" where
  "has_column rows col =
     (fst col \<in> set value_columns \<and>
      list_ex (\<lambda>r. index_of r \<noteq> None \<and> buffer_distance r = snd col \<and>
                   value_of (fst col) r \<noteq> NaN) rows)"

text \<open>The table as a lookup: the cell of a row and a column, if both exist.\<close>

definition pivot_table :: "pop_record list \<Rightarrow> index_key \<Rightarrow> string \<times> int \<Rightarrow> pyfloat option" where
  "pivot_table rows key col =
     (if has_row rows key \<and> has_column rows col then Some (round0 (aggregate rows key col))
      else None)"

text \<open>\<open>save_results\<close> returns the pivot table; the summary reads the three columns
  \<open>population_total_100m\<close>, \<open>_200m\<close> and \<open>_500m\<close>, and a missing one raises.\<close>

definition save_results ::
  "pop_record list \<Rightarrow> error + (index_key \<Rightarrow> string \<times> int \<Rightarrow> pyfloat option)" where
  "save_results population_data =
     (if list_all (\<lambda>d. has_column population_data (''population_total'', d)) [100, 200, 500]
      then Inr (pivot_table population_data)
      else Inl KeyError)"

section \<open>Valid cells\<close>

text \<open>The values a sum may count: those of the cells that are neither masked (no-data
  or outside the shape) nor NaN. \<open>fsum\<close> adds floats from zero.\<close>

definition valid_values :: "cell list \<Rightarrow> pyfloat list" where
  "valid_values cs = map raw (filter (\<lambda>c. \<not> masked c \<and> raw c \<noteq> NaN) cs)"

definition fsum :: "pyfloat list \<Rightarrow> pyfloat" where
  "fsum vs = foldr fadd vs (Fl 0)"

text \<open>Values that are all finite and not negative, and the number a finite value
  holds.\<close>

definition nonneg_values :: "pyfloat list \<Rightarrow> bool" where
  "nonneg_values vs = list_all (\<lambda>v. case v of Fl x \<Rightarrow> 0 \<le> x | _ \<Rightarrow> False) vs"

fun fl_val :: "pyfloat \<Rightarrow> real" where
  "fl_val (Fl x) = x"
| "fl_val v = 0"

section \<open>Example data\<close>

text \<open>A 3 by 3 raster with one valid cell of value 100 in the middle; every other
  cell is no-data (the sentinel -99999, masked), one of them NaN.\<close>

definition nodata :: cell where
  "nodata = Cell (Fl (- 99999)) True"

definition single_valid_grid :: "cell list list" where
  "single_valid_grid =
     [[nodata, nodata, nodata],
      [nodata, Cell (Fl 100) False, Cell NaN True],
      [nodata, nodata, nodata]]"

text \<open>A 3 by 3 raster whose cells are all measured and hold 0.\<close>

definition zero_grid :: "cell list list" where
  "zero_grid =
     [[Cell (Fl 0) False, Cell (Fl 0) False, Cell (Fl 0) False],
      [Cell (Fl 0) False, Cell (Fl 0) False, Cell (Fl 0) False],
      [Cell (Fl 0) False, Cell (Fl 0) False, Cell (Fl 0) False]]"

text \<open>The rasters as clipped datasets with cells of 0.001 degrees, the upper left
  corner at longitude 77.6, latitude 12.95.\<close>

definition koramangala_transform :: affine where
  "koramangala_transform =
     \<lparr>aff_a = 0.001, aff_b = 0, aff_c = 77.6, aff_d = 0, aff_e = - 0.001, aff_f = 12.95\<rparr>"

definition single_valid_info :: data_info where
  "single_valid_info =
     \<lparr>data = single_valid_grid, transform = koramangala_transform, resolution = 0.001\<rparr>"

definition zero_info :: data_info where
  "zero_info = \<lparr>data = zero_grid, transform = koramangala_transform, resolution = 0.001\<rparr>"

text \<open>A point feature in the middle cell of these rasters, a second point feature, and
  a polygon feature: a square of 0.002 degrees, about 200 m wide.\<close>

definition cafe :: "geometry feature" where
  "cafe = \<lparr>idx = 0, name = Text ''Cafe'', category = Text ''food'',
           geometry = Point 77.6015 12.9485\<rparr>"

definition clinic :: "geometry feature" where
  "clinic = \<lparr>idx = 1, name = Text ''Clinic'', category = Text ''health'',
             geometry = Point 77.6025 12.9475\<rparr>"

definition plaza :: "geometry feature" where
  "plaza = \<lparr>idx = 0, name = Text ''Plaza'', category = Text ''shopping'',
            geometry = Polygon [(77.600, 12.940), (77.602, 12.940),
                                (77.602, 12.942), (77.600, 12.942)]\<rparr>"

text \<open>The buffer rows of the two point features.\<close>

definition cafe_buffer :: "int \<Rightarrow> shape buffer_row" where
  "cafe_buffer distance =
     \<lparr>idx = 0, name = Text ''Cafe'', category = Text ''food'',
      geometry = buffered (Point 77.6015 12.9485) distance,
      buffer_distance_col = distance, poi_id_col = 0\<rparr>"

definition clinic_buffer :: "int \<Rightarrow> shape buffer_row" where
  "clinic_buffer distance =
     \<lparr>idx = 1, name = Text ''Clinic'', category = Text ''health'',
      geometry = buffered (Point 77.6025 12.9475) distance,
      buffer_distance_col = distance, poi_id_col = 1\<rparr>"

text \<open>A centroid for the examples. The centroid of a point is the point; for a ring
  the mean of its corners is taken, which is the centroid of a rectangle.\<close>

definition feature_centroid :: "geometry \<Rightarrow> real \<times> real" where
  "feature_centroid g =
     (case g of
        Point x y \<Rightarrow> (x, y)
      | Polygon vs \<Rightarrow>
          (sum_list (map fst vs) / real (length vs), sum_list (map snd vs) / real (length vs)))"

text \<open>The centroid of a derived shape, for the examples. A projected or buffered shape
  keeps the centroid of the shape it comes from. A ring without corners is empty, and
  so is the buffer of a point by a distance that is zero or negative: reading the
  coordinates of their centroid raises.\<close>

fun is_point :: "shape \<Rightarrow> bool" where
  "is_point (Geom (Point x y)) = True"
| "is_point (Geom (Polygon vs)) = False"
| "is_point (ToCrs crs g) = is_point g"
| "is_point (Buffer g distance) = False"

fun centre_of :: "shape \<Rightarrow> error + real \<times> real" where
  "centre_of (Geom (Point x y)) = Inr (x, y)"
| "centre_of (Geom (Polygon vs)) =
     (if vs = [] then Inl EmptyGeometryError else Inr (feature_centroid (Polygon vs)))"
| "centre_of (ToCrs crs g) = centre_of g"
| "centre_of (Buffer g distance) =
     (if distance \<le> 0 \<and> is_point g then Inl EmptyGeometryError else centre_of g)"

text \<open>Rasters as \<open>mask\<close> sees them. One that no buffer overlaps: the call raises.
  One where every buffer covers the whole of \<open>single_valid_grid\<close>, one where every
  buffer covers the whole of \<open>zero_grid\<close>. One where every buffer covers a single
  no-data cell (the sentinel, masked), and one where it covers a single cell whose value
  is NaN. And a coarse raster of one cell of value 7 whose centre is 300 m from the
  cafe: the 100 m and 200 m buffers do not contain the centre, so the cell is masked
  for them; the 500 m buffer contains it.\<close>

definition no_overlap :: "shape \<Rightarrow> error + cell list list" where
  "no_overlap g = Inl ValueError"

definition covers_single_valid :: "shape \<Rightarrow> error + cell list list" where
  "covers_single_valid g = Inr single_valid_grid"

definition covers_zero :: "shape \<Rightarrow> error + cell list list" where
  "covers_zero g = Inr zero_grid"

definition covers_nodata :: "shape \<Rightarrow> error + cell list list" where
  "covers_nodata g = Inr [[nodata]]"

definition covers_nan :: "shape \<Rightarrow> error + cell list list" where
  "covers_nan g = Inr [[Cell NaN False]]"

definition coarse_cell :: "shape \<Rightarrow> error + cell list list" where
  "coarse_cell g =
     (if g = buffered (Point 77.6015 12.9485) 500 then Inr [[Cell (Fl 7) False]]
      else Inr [[Cell (Fl 7) True]])"

text \<open>Two rasters that differ for the buffers of the cafe only: on the first
  \<open>mask\<close> raises for them, on the second they cover \<open>zero_grid\<close>. Every other shape
  covers \<open>single_valid_grid\<close> on both.\<close>

definition fails_for_cafe :: "shape \<Rightarrow> error + cell list list" where
  "fails_for_cafe g =
     (if centre_of g = Inr (77.6015, 12.9485) then Inl ValueError else Inr single_valid_grid)"

definition zero_for_cafe :: "shape \<Rightarrow> error + cell list list" where
  "zero_for_cafe g =
     (if centre_of g = Inr (77.6015, 12.9485) then Inr zero_grid else Inr single_valid_grid)"

text \<open>A random generator that always draws 0.5, the draw for which the variation
  factor is 1.0.\<close>

definition draws_half :: "nat \<Rightarrow> real" where
  "draws_half k = 1/2"

section \<open>Window bounds\<close>

lemma buffer_cells_ge1: "buffer_cells res = Inr bc \<Longrightarrow> 1 \<le> bc"
  by (auto simp: buffer_cells_def split: if_splits)

lemma length_py_slice:
  "0 \<le> lo \<Longrightarrow> lo \<le> hi \<Longrightarrow> hi \<le> int (length xs) \<Longrightarrow> length (py_slice xs lo hi) = nat (hi - lo)"
  by (auto simp: py_slice_def)

lemma set_py_slice: "set (py_slice xs lo hi) \<subseteq> set xs"
  unfolding py_slice_def by (meson set_take_subset set_drop_subset subset_trans)

text \<open>
  C10. For a POI whose cell \<open>(row, col)\<close> lies in the clipped raster, and any resolution
  for which the number of buffer cells is computed, the window bounds satisfy
  \<open>0 \<le> r_min \<le> r_max \<le> rows\<close> and \<open>0 \<le> c_min \<le> c_max \<le> columns\<close>. The window
  contains the POI's cell, and the slice has exactly \<open>r_max - r_min\<close> rows of
  \<open>c_max - c_min\<close> cells, all of them cells of the raster.
\<close>

theorem window_bounds_in_range:
  assumes "rectangular dat"
    and "0 \<le> row" "row < shape0 dat" "0 \<le> col" "col < shape1 dat"
    and "buffer_cells res = Inr bc"
  shows "case window_bounds (shape0 dat) (shape1 dat) row col bc of
           (r_min, r_max, c_min, c_max) \<Rightarrow>
             0 \<le> r_min \<and> r_min \<le> row \<and> row < r_max \<and> r_max \<le> shape0 dat \<and>
             0 \<le> c_min \<and> c_min \<le> col \<and> col < c_max \<and> c_max \<le> shape1 dat \<and>
             length (slice2d dat r_min r_max c_min c_max) = nat (r_max - r_min) \<and>
             list_all (\<lambda>r. length r = nat (c_max - c_min))
               (slice2d dat r_min r_max c_min c_max)"
proof -
  define r_min where "r_min = max 0 (row - bc)"
  define r_max where "r_max = min (shape0 dat) (row + bc + 1)"
  define c_min where "c_min = max 0 (col - bc)"
  define c_max where "c_max = min (shape1 dat) (col + bc + 1)"
  have bc: "1 \<le> bc" using assms(6) by (rule buffer_cells_ge1)
  have rows: "0 \<le> r_min" "r_min \<le> row" "row < r_max" "r_max \<le> shape0 dat"
    using bc assms(2,3) by (auto simp: r_min_def r_max_def)
  have cols: "0 \<le> c_min" "c_min \<le> col" "col < c_max" "c_max \<le> shape1 dat"
    using bc assms(4,5) by (auto simp: c_min_def c_max_def)
  have len: "length (slice2d dat r_min r_max c_min c_max) = nat (r_max - r_min)"
    using rows by (simp add: slice2d_def length_py_slice shape0_def)
  have "length (py_slice r c_min c_max) = nat (c_max - c_min)"
    if "r \<in> set (py_slice dat r_min r_max)" for r
  proof -
    have "r \<in> set dat" by (rule subsetD [OF set_py_slice that])
    with assms(1) have "int (length r) = shape1 dat"
      by (simp add: rectangular_def list_all_iff)
    with cols show ?thesis by (simp add: length_py_slice)
  qed
  then have wid: "list_all (\<lambda>r. length r = nat (c_max - c_min))
                    (slice2d dat r_min r_max c_min c_max)"
    by (simp add: slice2d_def list_all_iff)
  show ?thesis
    using rows cols len wid
    by (simp add: window_bounds_def r_min_def r_max_def c_min_def c_max_def)
qed

theorem window_bounds_in_range_witness:
  "rectangular single_valid_grid \<and>
   (0::int) \<le> 1 \<and> 1 < shape0 single_valid_grid \<and> 1 < shape1 single_valid_grid \<and>
   buffer_cells 0.001 = Inr 2 \<and>
   window_bounds (shape0 single_valid_grid) (shape1 single_valid_grid) 1 1 2 = (0, 3, 0, 3) \<and>
   length (slice2d single_valid_grid 0 3 0 3) = 3 \<and>
   list_all (\<lambda>r. length r = 3) (slice2d single_valid_grid 0 3 0 3)"
proof -
  have rect: "rectangular single_valid_grid"
    by (simp add: rectangular_def single_valid_grid_def shape1_def)
  have s0: "shape0 single_valid_grid = 3" by (simp add: shape0_def single_valid_grid_def)
  have s1: "shape1 single_valid_grid = 3" by (simp add: shape1_def single_valid_grid_def)
  have bc: "buffer_cells 0.001 = Inr 2" by (simp add: buffer_cells_def py_int_def)
  have wb: "window_bounds 3 3 1 1 2 = (0, 3, 0, 3)" by (simp add: window_bounds_def)
  show ?thesis
    using window_bounds_in_range [of single_valid_grid 1 1 "0.001" 2, OF rect _ _ _ _ bc]
      rect bc
    by (simp add: s0 s1 wb)
qed

section \<open>No-data cells in a sum\<close>

lemma unmasked_isnan_filter:
  "map raw (filter (\<lambda>c. \<not> masked c) (isnan_filter cs)) = valid_values cs"
  by (simp add: isnan_filter_def valid_values_def conj_commute)

lemma all_masked_iff:
  "list_all masked (isnan_filter cs) \<longleftrightarrow> valid_values cs = []"
  by (auto simp: list_all_iff isnan_filter_def valid_values_def filter_empty_conv)

lemma ma_sum_isnan_filter:
  "ma_sum (isnan_filter cs) =
     (if valid_values cs = [] then MaskedConst else Num (fsum (valid_values cs)))"
  by (simp add: ma_sum_def all_masked_iff fsum_def unmasked_isnan_filter)

lemma valid_values_Nil_filter: "isnan_filter cs = [] \<Longrightarrow> valid_values cs = []"
  by (auto simp: isnan_filter_def valid_values_def filter_empty_conv)

lemma total_population_eq:
  "to_float (total_population clipped) =
     (if valid_values (concat clipped) = [] \<and> isnan_filter (concat clipped) \<noteq> [] then NaN
      else fsum (valid_values (concat clipped)))"
proof (cases "isnan_filter (concat clipped) = []")
  case True
  then show ?thesis
    by (simp add: total_population_def fsum_def valid_values_Nil_filter)
next
  case False
  then show ?thesis
    by (simp add: total_population_def ma_sum_isnan_filter)
qed

lemma buffer_sum_eq:
  "buffer_sum window =
     (if valid_values (concat window) = [] then NaN else fsum (valid_values (concat window)))"
  by (simp add: buffer_sum_def ma_sum_isnan_filter)

lemma cafe_centre: "centre_of (geometry (cafe_buffer 100)) = Inr (77.6015, 12.9485)"
  by (simp add: cafe_buffer_def buffered_def)

lemma cafe_centre_500: "centre_of (geometry (cafe_buffer 500)) = Inr (77.6015, 12.9485)"
  by (simp add: cafe_buffer_def buffered_def)

text \<open>Where a buffer has a valid cell, its total is the sum of the values of its valid
  cells, and the buffer over the raster with the single valid cell of value 100 has the
  total 100.\<close>

lemma valid_cells_summed:
  assumes "mask_src (geometry row) = Inr clipped" and "centroid (geometry row) = Inr c"
    and "valid_values (concat clipped) \<noteq> []"
  shows "\<exists>density. extract_row mask_src centroid row
           = Inr (row_record row c (fsum (valid_values (concat clipped))) density)"
  using assms total_population_eq [of clipped]
  by (auto simp: extract_row_def extract_row_try_def Let_def)

lemma single_valid_total: "total_population single_valid_grid = Num (Fl 100)"
  by (simp add: total_population_def isnan_filter_def ma_sum_def single_valid_grid_def
        nodata_def)

lemma single_valid_cell_total:
  "extract_row covers_single_valid centre_of (cafe_buffer 100)
     = Inr (row_record (cafe_buffer 100) (77.6015, 12.9485) (Fl 100)
              (per_hectare (Fl 100) 100))"
  using cafe_centre
  by (simp add: extract_row_def extract_row_try_def covers_single_valid_def single_valid_total
        cafe_buffer_def)

text \<open>
  C2 at a failing input. A buffer inside the raster that covers one no-data cell, the
  masked sentinel, and no valid cell: the cell passes the NaN filter, the array is not
  empty, its masked sum is the masked constant and the recorded total is NaN. A buffer
  that covers one cell whose value is NaN has the total 0: the filter removes the cell
  and nothing is summed. The no-data cell is not left out of the aggregation.
\<close>

theorem nodata_cell_gives_nan:
  "extract_row covers_nodata centre_of (cafe_buffer 100)
     = Inr (row_record (cafe_buffer 100) (77.6015, 12.9485) NaN (Fl 0)) \<and>
   population_total (projr (extract_row covers_nodata centre_of (cafe_buffer 100))) = NaN \<and>
   extract_row covers_nan centre_of (cafe_buffer 100)
     = Inr (row_record (cafe_buffer 100) (77.6015, 12.9485) (Fl 0) (Fl 0)) \<and>
   population_total (projr (extract_row covers_nan centre_of (cafe_buffer 100))) = Fl 0"
proof -
  have nd: "total_population [[nodata]] = MaskedConst"
    by (simp add: total_population_def isnan_filter_def ma_sum_def nodata_def)
  have nn: "total_population [[Cell NaN False]] = Num (Fl 0)"
    by (simp add: total_population_def isnan_filter_def)
  have r1: "extract_row covers_nodata centre_of (cafe_buffer 100)
     = Inr (row_record (cafe_buffer 100) (77.6015, 12.9485) NaN (Fl 0))"
    using cafe_centre
    by (simp add: extract_row_def extract_row_try_def covers_nodata_def nd)
  have r2: "extract_row covers_nan centre_of (cafe_buffer 100)
     = Inr (row_record (cafe_buffer 100) (77.6015, 12.9485) (Fl 0) (Fl 0))"
    using cafe_centre
    by (simp add: extract_row_def extract_row_try_def covers_nan_def nn)
  show ?thesis by (simp add: r1 r2 row_record_def)
qed

section \<open>Points and buffers outside the raster\<close>

lemma py_int_neg: "x \<le> - 1 \<Longrightarrow> py_int x < 0"
  by (auto simp: py_int_def ceiling_less_iff)

lemma py_int_ge: "real_of_int n \<le> x \<Longrightarrow> 0 \<le> n \<Longrightarrow> n \<le> py_int x"
  by (auto simp: py_int_def le_floor_iff)

lemma shape0_nonneg: "0 \<le> shape0 dat" by (simp add: shape0_def)
lemma shape1_nonneg: "0 \<le> shape1 dat" by (simp add: shape1_def split: list.splits)

lemma extract_dataset_outside:
  assumes "inverse_apply (transform di) p = Inr (colf, rowf)"
    and "colf \<le> - 1 \<or> real_of_int (shape1 (data di)) \<le> colf \<or>
         rowf \<le> - 1 \<or> real_of_int (shape0 (data di)) \<le> rowf"
  shows "extract_dataset di p = (Fl 0, Fl 0)"
proof -
  have "\<not> (0 \<le> py_int rowf \<and> py_int rowf < shape0 (data di) \<and>
            0 \<le> py_int colf \<and> py_int colf < shape1 (data di))"
    using assms(2) py_int_neg [of colf] py_int_neg [of rowf]
      py_int_ge [of "shape1 (data di)" colf] py_int_ge [of "shape0 (data di)" rowf]
      shape0_nonneg [of "data di"] shape1_nonneg [of "data di"]
    by linarith
  then show ?thesis
    using assms(1) by (auto simp: extract_dataset_def extract_try_def Let_def)
qed

lemma extract_dataset_degenerate:
  "inverse_apply (transform di) p = Inl err \<Longrightarrow> extract_dataset di p = (Fl 0, Fl 0)"
  by (simp add: extract_dataset_def extract_try_def)

lemma extract_row_mask_raises:
  "mask_src (geometry row) = Inl err \<Longrightarrow> centroid (geometry row) = Inr c \<Longrightarrow>
   extract_row mask_src centroid row = Inr (row_record row c (Fl 0) (Fl 0))"
  by (simp add: extract_row_def extract_row_try_def)

text \<open>
  C1, as the code has it. A point whose fractional raster index lies a whole cell or more
  outside the clipped raster gets 0.0 under both \<open>_at_location\<close> and \<open>_in_buffer\<close>,
  and nothing is raised. A buffer that has a centroid and for which \<open>mask\<close> raises (it
  does not overlap the raster) gets a record with \<open>population_total = 0\<close> and
  \<open>population_density = 0\<close>. Neither result carries a coverage flag.
\<close>

theorem outside_extent_reads_zero:
  "(inverse_apply (transform di) p = Inr (colf, rowf) \<and>
      (colf \<le> - 1 \<or> real_of_int (shape1 (data di)) \<le> colf \<or>
       rowf \<le> - 1 \<or> real_of_int (shape0 (data di)) \<le> rowf)
     \<longrightarrow> extract_dataset di p = (Fl 0, Fl 0)) \<and>
   (mask_src (geometry row) = Inl err \<and> centroid (geometry row) = Inr c
     \<longrightarrow> extract_row mask_src centroid row = Inr (row_record row c (Fl 0) (Fl 0)) \<and>
         population_total (row_record row c (Fl 0) (Fl 0)) = Fl 0 \<and>
         population_density (row_record row c (Fl 0) (Fl 0)) = Fl 0 \<and>
         estimation_method (row_record row c (Fl 0) (Fl 0)) = None)"
  using extract_dataset_outside [of di p colf rowf]
        extract_row_mask_raises [of mask_src row err centroid c]
  by (simp add: row_record_def)

lemma inv_outside: "inverse_apply koramangala_transform (77.7, 12.9485) = Inr (100, 3/2)"
  by (simp add: inverse_apply_def koramangala_transform_def Let_def)

lemma inv_inside: "inverse_apply koramangala_transform (77.6015, 12.9485) = Inr (3/2, 3/2)"
  by (simp add: inverse_apply_def koramangala_transform_def Let_def)

theorem outside_extent_reads_zero_witness:
  "inverse_apply (transform zero_info) (77.7, 12.9485) = Inr (100, 3/2) \<and>
   real_of_int (shape1 (data zero_info)) \<le> 100 \<and>
   extract_dataset zero_info (77.7, 12.9485) = (Fl 0, Fl 0) \<and>
   no_overlap (geometry (cafe_buffer 100)) = Inl ValueError \<and>
   centre_of (geometry (cafe_buffer 100)) = Inr (77.6015, 12.9485) \<and>
   extract_row no_overlap centre_of (cafe_buffer 100)
     = Inr (row_record (cafe_buffer 100) (77.6015, 12.9485) (Fl 0) (Fl 0))"
proof -
  have inv: "inverse_apply (transform zero_info) (77.7, 12.9485) = Inr (100, 3/2)"
    using inv_outside by (simp add: zero_info_def)
  have wide: "real_of_int (shape1 (data zero_info)) \<le> 100"
    by (simp add: zero_info_def zero_grid_def shape1_def)
  have raises: "no_overlap (geometry (cafe_buffer 100)) = Inl ValueError"
    by (simp add: no_overlap_def)
  show ?thesis
    using outside_extent_reads_zero
            [where di = zero_info and p = "(77.7, 12.9485)" and colf = 100 and rowf = "3/2"
               and mask_src = no_overlap and row = "cafe_buffer 100" and err = ValueError
               and centroid = centre_of and c = "(77.6015, 12.9485)"]
      inv wide raises cafe_centre
    by simp
qed

lemma zero_inside: "extract_dataset zero_info (77.6015, 12.9485) = (Fl 0, Fl 0)"
proof -
  have inv: "inverse_apply (transform zero_info) (77.6015, 12.9485) = Inr (3/2, 3/2)"
    using inv_inside by (simp add: zero_info_def)
  have bc: "buffer_cells (resolution zero_info) = Inr 2"
    by (simp add: zero_info_def buffer_cells_def py_int_def)
  have idx: "py_int (3/2) = 1" by (simp add: py_int_def)
  have dat: "data zero_info = zero_grid" by (simp add: zero_info_def)
  have s0: "shape0 zero_grid = 3" by (simp add: shape0_def zero_grid_def)
  have s1: "shape1 zero_grid = 3" by (simp add: shape1_def zero_grid_def)
  have wb: "window_bounds 3 3 1 1 2 = (0, 3, 0, 3)" by (simp add: window_bounds_def)
  have cell: "at_location (zero_grid ! Suc 0 ! Suc 0) = Fl 0"
    by (simp add: zero_grid_def at_location_def)
  have sl: "slice2d zero_grid 0 3 0 3 = zero_grid"
    by (simp add: slice2d_def py_slice_def zero_grid_def)
  have sm: "buffer_sum zero_grid = Fl 0"
    by (simp add: buffer_sum_def isnan_filter_def ma_sum_def zero_grid_def)
  show ?thesis
    using inv bc
    by (simp add: extract_dataset_def extract_try_def idx dat s0 s1 wb cell sl sm)
qed

text \<open>
  C1 as stated fails: the result for a point outside the raster is the result for a point
  on a cell that holds a measured zero, and the record of a buffer that does not overlap
  the raster is the record of a buffer over cells that sum to zero.
\<close>

theorem no_coverage_not_distinguished:
  "extract_dataset zero_info (77.7, 12.9485) = extract_dataset zero_info (77.6015, 12.9485) \<and>
   extract_dataset zero_info (77.7, 12.9485) = (Fl 0, Fl 0) \<and>
   extract_row no_overlap centre_of (cafe_buffer 100)
     = extract_row covers_zero centre_of (cafe_buffer 100) \<and>
   extract_row no_overlap centre_of (cafe_buffer 100)
     = Inr (row_record (cafe_buffer 100) (77.6015, 12.9485) (Fl 0) (Fl 0))"
proof -
  have out: "extract_dataset zero_info (77.7, 12.9485) = (Fl 0, Fl 0)"
    using extract_dataset_outside [of zero_info "(77.7, 12.9485)" 100 "3/2"] inv_outside
    by (simp add: zero_info_def zero_grid_def shape1_def)
  have tot: "total_population zero_grid = Num (Fl 0)"
    by (simp add: total_population_def isnan_filter_def ma_sum_def zero_grid_def)
  have none: "extract_row no_overlap centre_of (cafe_buffer 100)
     = Inr (row_record (cafe_buffer 100) (77.6015, 12.9485) (Fl 0) (Fl 0))"
    using cafe_centre by (simp add: extract_row_def extract_row_try_def no_overlap_def)
  have zero: "extract_row covers_zero centre_of (cafe_buffer 100)
     = Inr (row_record (cafe_buffer 100) (77.6015, 12.9485) (Fl 0) (Fl 0))"
    using cafe_centre by (simp add: extract_row_def extract_row_try_def covers_zero_def tot)
  show ?thesis using out zero_inside none zero by simp
qed

section \<open>Buffers for any radius\<close>

lemma map_of_fold_update:
  "map_of (fold (\<lambda>k acc. AList.update k (f k) acc) ks acc0) d =
     (if d \<in> set ks then Some (f d) else map_of acc0 d)"
  by (induction ks arbitrary: acc0) (auto simp: update_conv')

lemma distinct_fold_update:
  "distinct (map fst acc0) \<Longrightarrow>
   distinct (map fst (fold (\<lambda>k acc. AList.update k (f k) acc) ks acc0))"
  by (induction ks arbitrary: acc0) (auto simp: distinct_update)

lemma buffer_table_distance:
  "map buffer_distance_col (buffer_table pois d) = replicate (length pois) d"
  by (auto simp: buffer_table_def map_replicate_const [symmetric] split_def
           intro!: nth_equalityI)

lemma buffer_table_geometry:
  "map geometry (buffer_table pois d) = map (\<lambda>poi. buffered (geometry poi) d) pois"
  by (auto simp: buffer_table_def split_def nth_enumerate_eq intro!: nth_equalityI)

text \<open>
  C7, as the code has it. \<open>create_buffer_zones\<close> checks no radius: for every list of
  distances, positive or not, it returns one table per distinct distance, and the table
  of a distance \<open>d\<close> has one row per feature, with \<open>buffer_distance = d\<close> and the
  feature's geometry buffered by \<open>d\<close>. Nothing is raised for a radius.
\<close>

theorem create_buffer_zones_any_radius:
  "map_of (create_buffer_zones pois ds) d =
     (if d \<in> set ds then Some (buffer_table pois d) else None) \<and>
   distinct (map fst (create_buffer_zones pois ds)) \<and>
   map buffer_distance_col (buffer_table pois d) = replicate (length pois) d \<and>
   map geometry (buffer_table pois d) = map (\<lambda>poi. buffered (geometry poi) d) pois"
  by (simp add: create_buffer_zones_def map_of_fold_update distinct_fold_update
        buffer_table_distance buffer_table_geometry)

lemma buffer_table_cafe: "buffer_table [cafe] d = [cafe_buffer d]"
  by (simp add: buffer_table_def cafe_def cafe_buffer_def)

text \<open>
  C7 as stated fails: for the radii 0 and -5, buffer generation returns a table for
  each of them, as for any other radius.
\<close>

theorem zero_and_negative_radius_accepted:
  "create_buffer_zones [cafe] [0, - 5] = [(0, [cafe_buffer 0]), (- 5, [cafe_buffer (- 5)])]"
  by (simp add: create_buffer_zones_def buffer_table_cafe)

section \<open>Failures of single buffers\<close>

lemma extract_row_returns:
  "centroid (geometry row) = Inr c \<Longrightarrow>
   \<exists>pop_total density.
     extract_row mask_src centroid row = Inr (row_record row c pop_total density)"
  by (cases "mask_src (geometry row)") (auto simp: extract_row_def extract_row_try_def Let_def)

lemma extract_row_escapes:
  "centroid (geometry row) = Inl err \<Longrightarrow> extract_row mask_src centroid row = Inl err"
  by (cases "mask_src (geometry row)") (simp_all add: extract_row_def extract_row_try_def)

lemma extract_rows_all:
  "list_all (\<lambda>row. \<not> isl (centroid (geometry row))) rows \<Longrightarrow>
   extract_rows mask_src centroid rows
     = Inr (map (\<lambda>row. projr (extract_row mask_src centroid row)) rows)"
proof (induction rows)
  case Nil
  then show ?case by simp
next
  case (Cons row rows)
  from Cons.prems obtain c where "centroid (geometry row) = Inr c"
    by (cases "centroid (geometry row)") auto
  from extract_row_returns [where centroid = centroid and mask_src = mask_src, OF this]
  obtain result where "extract_row mask_src centroid row = Inr result" by blast
  with Cons show ?case by simp
qed

lemma projr_extract_row:
  assumes "\<not> isl (centroid (geometry row))"
  shows "poi_id (projr (extract_row mask_src centroid row)) = idx row \<and>
         buffer_distance (projr (extract_row mask_src centroid row)) = buffer_distance_col row \<and>
         (isl (mask_src (geometry row)) \<longrightarrow>
            population_total (projr (extract_row mask_src centroid row)) = Fl 0 \<and>
            population_density (projr (extract_row mask_src centroid row)) = Fl 0)"
proof -
  from assms obtain c where c: "centroid (geometry row) = Inr c"
    by (cases "centroid (geometry row)") auto
  from extract_row_returns [where centroid = centroid and mask_src = mask_src, OF c]
  obtain pop_total density
    where r: "extract_row mask_src centroid row = Inr (row_record row c pop_total density)"
    by blast
  have "population_total (projr (extract_row mask_src centroid row)) = Fl 0 \<and>
        population_density (projr (extract_row mask_src centroid row)) = Fl 0"
    if "isl (mask_src (geometry row))"
  proof -
    from that obtain err where "mask_src (geometry row) = Inl err" by (auto simp: isl_def)
    from extract_row_mask_raises [where centroid = centroid and mask_src = mask_src, OF this c]
    show ?thesis by (simp add: row_record_def)
  qed
  then show ?thesis using r by (simp add: row_record_def)
qed

text \<open>An empty buffer polygon has no centroid: the handler of its row raises, and the
  batch returns \<open>None\<close>.\<close>

lemma extract_rows_escapes:
  "row \<in> set rows \<Longrightarrow> centroid (geometry row) = Inl err \<Longrightarrow>
   isl (extract_rows mask_src centroid rows)"
proof (induction rows)
  case Nil
  then show ?case by simp
next
  case (Cons r rows)
  show ?case
  proof (cases "r = row")
    case True
    with Cons.prems(2) show ?thesis by (simp add: extract_row_escapes)
  next
    case False
    with Cons have "isl (extract_rows mask_src centroid rows)" by simp
    then show ?thesis by (auto simp: isl_def split: sum.splits)
  qed
qed

lemma empty_buffer_aborts_batch:
  "row \<in> set (concat (map snd zones)) \<Longrightarrow> centroid (geometry row) = Inl err \<Longrightarrow>
   extract_population_from_raster opened centroid zones = None"
proof (cases opened)
  case (Inl e)
  then show ?thesis by (simp add: extract_population_from_raster_def)
next
  case (Inr mask_src)
  assume "row \<in> set (concat (map snd zones))" and "centroid (geometry row) = Inl err"
  then have "isl (extract_rows mask_src centroid (concat (map snd zones)))"
    by (rule extract_rows_escapes)
  with Inr show ?thesis
    by (auto simp: extract_population_from_raster_def isl_def)
qed

text \<open>
  C8, as the code has it. When the raster opens and every buffer has a centroid, the
  batch returns exactly one record per buffer row, in the order of the rows, whichever
  \<open>mask\<close> calls raise. The record of a row whose \<open>mask\<close> call raises has
  \<open>population_total = 0\<close> and \<open>population_density = 0\<close>; it has no reason code.
\<close>

theorem failures_isolated:
  assumes "list_all (\<lambda>row. \<not> isl (centroid (geometry row))) (concat (map snd zones))"
  shows "case extract_population_from_raster (Inr mask_src) centroid zones of
     None \<Rightarrow> False
   | Some rs \<Rightarrow>
       length rs = length (concat (map snd zones)) \<and>
       (\<forall>i < length rs.
          poi_id (rs ! i) = idx (concat (map snd zones) ! i) \<and>
          buffer_distance (rs ! i) = buffer_distance_col (concat (map snd zones) ! i) \<and>
          (isl (mask_src (geometry (concat (map snd zones) ! i))) \<longrightarrow>
             population_total (rs ! i) = Fl 0 \<and>
             population_density (rs ! i) = Fl 0))"
proof -
  let ?rows = "concat (map snd zones)"
  have ok: "\<not> isl (centroid (geometry (?rows ! i)))" if "i < length ?rows" for i
    using assms that by (simp add: list_all_length)
  have "poi_id (projr (extract_row mask_src centroid (?rows ! i))) = idx (?rows ! i) \<and>
        buffer_distance (projr (extract_row mask_src centroid (?rows ! i)))
          = buffer_distance_col (?rows ! i) \<and>
        (isl (mask_src (geometry (?rows ! i))) \<longrightarrow>
           population_total (projr (extract_row mask_src centroid (?rows ! i))) = Fl 0 \<and>
           population_density (projr (extract_row mask_src centroid (?rows ! i))) = Fl 0)"
    if "i < length ?rows" for i
    by (rule projr_extract_row [where centroid = centroid]) (rule ok [OF that])
  then show ?thesis
    by (simp add: extract_population_from_raster_def
          extract_rows_all [where centroid = centroid, OF assms])
qed

lemma zero_total: "total_population zero_grid = Num (Fl 0)"
  by (simp add: total_population_def isnan_filter_def ma_sum_def zero_grid_def)

lemma clinic_centre: "centre_of (geometry (clinic_buffer 100)) = Inr (77.6025, 12.9475)"
  by (simp add: clinic_buffer_def buffered_def)

text \<open>A batch of two buffers: the cafe's fails, the clinic's is processed after it.\<close>

theorem failures_isolated_witness:
  "list_all (\<lambda>row. \<not> isl (centre_of (geometry row)))
     (concat (map snd [(100, [cafe_buffer 100, clinic_buffer 100])])) \<and>
   isl (fails_for_cafe (geometry (cafe_buffer 100))) \<and>
   (case extract_population_from_raster (Inr fails_for_cafe) centre_of
           [(100, [cafe_buffer 100, clinic_buffer 100])] of
      None \<Rightarrow> False
    | Some rs \<Rightarrow>
        length rs = 2 \<and> poi_id (rs ! 0) = 0 \<and> population_total (rs ! 0) = Fl 0 \<and>
        population_density (rs ! 0) = Fl 0 \<and>
        poi_id (rs ! 1) = 1 \<and> population_total (rs ! 1) = Fl 100)"
proof -
  have cen: "list_all (\<lambda>row. \<not> isl (centre_of (geometry row)))
               (concat (map snd [(100, [cafe_buffer 100, clinic_buffer 100])]))"
    using cafe_centre clinic_centre by simp
  have fails: "isl (fails_for_cafe (geometry (cafe_buffer 100)))"
    using cafe_centre by (simp add: fails_for_cafe_def)
  have clinic: "extract_row fails_for_cafe centre_of (clinic_buffer 100)
     = Inr (row_record (clinic_buffer 100) (77.6025, 12.9475) (Fl 100)
              (per_hectare (Fl 100) 100))"
    using clinic_centre
    by (simp add: extract_row_def extract_row_try_def fails_for_cafe_def single_valid_total
          clinic_buffer_def)
  have tot: "population_total (projr (extract_row fails_for_cafe centre_of (clinic_buffer 100)))
     = Fl 100"
    by (simp add: clinic row_record_def)
  have res: "extract_population_from_raster (Inr fails_for_cafe) centre_of
               [(100, [cafe_buffer 100, clinic_buffer 100])]
             = Some [projr (extract_row fails_for_cafe centre_of (cafe_buffer 100)),
                     projr (extract_row fails_for_cafe centre_of (clinic_buffer 100))]"
    using extract_rows_all [where centroid = centre_of and mask_src = fails_for_cafe, OF cen]
    by (simp add: extract_population_from_raster_def)
  have ids: "idx (cafe_buffer 100) = 0" "idx (clinic_buffer 100) = 1"
    by (simp_all add: cafe_buffer_def clinic_buffer_def)
  show ?thesis
    using failures_isolated [where mask_src = fails_for_cafe and centroid = centre_of
                               and zones = "[(100, [cafe_buffer 100, clinic_buffer 100])]",
                             OF cen]
      cen fails tot
    by (simp add: res All_less_Suc ids)
qed

text \<open>
  C8 as stated fails: a batch in which the buffers of the cafe fail yields the same
  records as a batch in which the same buffers cover cells that sum to zero, so no
  entry is marked as failed and none has a reason code.
\<close>

theorem failed_entry_has_no_reason:
  "extract_population_from_raster (Inr fails_for_cafe) centre_of
     (create_buffer_zones [cafe, clinic] [100, 200])
   = extract_population_from_raster (Inr zero_for_cafe) centre_of
       (create_buffer_zones [cafe, clinic] [100, 200]) \<and>
   extract_population_from_raster (Inr fails_for_cafe) centre_of
     (create_buffer_zones [cafe, clinic] [100, 200]) \<noteq> None"
proof -
  have same: "extract_row fails_for_cafe centre_of row = extract_row zero_for_cafe centre_of row"
    for row
    by (cases "centre_of (geometry row)")
       (simp_all add: extract_row_def extract_row_try_def fails_for_cafe_def zero_for_cafe_def
          zero_total)
  have rows: "extract_rows fails_for_cafe centre_of rows = extract_rows zero_for_cafe centre_of rows"
    for rows
    by (induction rows) (simp_all add: same split: sum.splits)
  have cen: "list_all (\<lambda>row. \<not> isl (centre_of (geometry row)))
               (concat (map snd (create_buffer_zones [cafe, clinic] [100, 200])))"
    by (simp add: create_buffer_zones_def buffer_table_def cafe_def clinic_def buffered_def)
  have eq: "extract_population_from_raster (Inr fails_for_cafe) centre_of
              (create_buffer_zones [cafe, clinic] [100, 200])
            = extract_population_from_raster (Inr zero_for_cafe) centre_of
                (create_buffer_zones [cafe, clinic] [100, 200])"
    by (simp add: extract_population_from_raster_def rows)
  have ne: "extract_population_from_raster (Inr fails_for_cafe) centre_of
              (create_buffer_zones [cafe, clinic] [100, 200]) \<noteq> None"
    by (simp add: extract_population_from_raster_def
          extract_rows_all [where centroid = centre_of, OF cen])
  show ?thesis by (rule conjI [OF eq ne])
qed

section \<open>Nested buffers\<close>

text \<open>Where the smaller buffer has a valid cell, the valid cells of the smaller buffer
  are among those of the larger one and no valid value is negative, the larger total is
  not smaller.\<close>

lemma fsum_finite: "nonneg_values vs \<Longrightarrow> fsum vs = Fl (sum_list (map fl_val vs))"
  by (induction vs) (auto simp: fsum_def nonneg_values_def split: pyfloat.splits)

lemma fl_val_nonneg: "nonneg_values vs \<Longrightarrow> v \<in> set vs \<Longrightarrow> 0 \<le> fl_val v"
  by (cases v) (auto simp: nonneg_values_def list_all_iff)

lemma sum_list_mset_mono:
  assumes "mset us \<subseteq># mset vs" and "nonneg_values vs"
  shows "sum_list (map fl_val us) \<le> sum_list (map fl_val vs)"
proof -
  from assms(1) obtain D where D: "mset vs = mset us + D"
    by (auto simp: mset_subset_eq_exists_conv)
  have "0 \<le> fl_val v" if "v \<in># D" for v
  proof -
    from that have "v \<in># mset vs" using D by simp
    then show ?thesis using fl_val_nonneg [OF assms(2)] by simp
  qed
  then have "sum_mset (image_mset (\<lambda>v. 0) D) \<le> sum_mset (image_mset fl_val D)"
    by (rule sum_mset_mono)
  then have "0 \<le> sum_mset (image_mset fl_val D)" by simp
  moreover have "sum_list (map fl_val vs) = sum_mset (image_mset fl_val (mset vs))"
    by (metis mset_map sum_mset_sum_list)
  moreover have "sum_list (map fl_val us) = sum_mset (image_mset fl_val (mset us))"
    by (metis mset_map sum_mset_sum_list)
  ultimately show ?thesis using D by simp
qed

lemma nested_totals_mono:
  assumes "mset (valid_values (concat small)) \<subseteq># mset (valid_values (concat large))"
    and "nonneg_values (valid_values (concat large))"
    and "valid_values (concat small) \<noteq> []"
  shows "fge (to_float (total_population large)) (to_float (total_population small))"
proof -
  have sub: "set (valid_values (concat small)) \<subseteq> set (valid_values (concat large))"
    using assms(1) by (metis set_mset_mono set_mset_mset)
  then have large: "valid_values (concat large) \<noteq> []"
    using assms(3) by auto
  have nn: "nonneg_values (valid_values (concat small))"
    using assms(2) sub by (auto simp: nonneg_values_def list_all_iff)
  show ?thesis
    using sum_list_mset_mono [OF assms(1,2)] assms(3) large
    by (simp add: total_population_eq fsum_finite [OF nn] fsum_finite [OF assms(2)])
qed

text \<open>
  C5 at a failing input. On a coarse raster whose one cell has the value 7, the 100 m
  buffer of the cafe contains no cell centre: every cell of its clipped raster is
  masked, the masked sum is the masked constant and the recorded total is NaN. The
  500 m buffer contains the centre and its total is 7. The comparison
  \<open>total(500) >= total(100)\<close> is false.
\<close>

theorem larger_buffer_not_ge:
  "extract_row coarse_cell centre_of (cafe_buffer 100)
     = Inr (row_record (cafe_buffer 100) (77.6015, 12.9485) NaN (Fl 0)) \<and>
   extract_row coarse_cell centre_of (cafe_buffer 500)
     = Inr (row_record (cafe_buffer 500) (77.6015, 12.9485) (Fl 7) (per_hectare (Fl 7) 500)) \<and>
   population_total (projr (extract_row coarse_cell centre_of (cafe_buffer 100))) = NaN \<and>
   population_total (projr (extract_row coarse_cell centre_of (cafe_buffer 500))) = Fl 7 \<and>
   \<not> fge (population_total (projr (extract_row coarse_cell centre_of (cafe_buffer 500))))
          (population_total (projr (extract_row coarse_cell centre_of (cafe_buffer 100))))"
proof -
  have masked_cell: "total_population [[Cell (Fl 7) True]] = MaskedConst"
    by (simp add: total_population_def isnan_filter_def ma_sum_def)
  have valid_cell: "total_population [[Cell (Fl 7) False]] = Num (Fl 7)"
    by (simp add: total_population_def isnan_filter_def ma_sum_def)
  have small: "extract_row coarse_cell centre_of (cafe_buffer 100)
     = Inr (row_record (cafe_buffer 100) (77.6015, 12.9485) NaN (Fl 0))"
    using cafe_centre
    by (simp add: extract_row_def extract_row_try_def coarse_cell_def masked_cell
          cafe_buffer_def buffered_def)
  have large: "extract_row coarse_cell centre_of (cafe_buffer 500)
     = Inr (row_record (cafe_buffer 500) (77.6015, 12.9485) (Fl 7) (per_hectare (Fl 7) 500))"
    using cafe_centre_500
    by (simp add: extract_row_def extract_row_try_def coarse_cell_def valid_cell
          cafe_buffer_def buffered_def)
  show ?thesis by (simp add: small large row_record_def)
qed

section \<open>Polygon features\<close>

text \<open>The paths that reduce a polygon to its centroid: \<open>09_add_worldpop_data.py\<close> and
  the fallback estimate. There a polygon feature gives what a point feature at its
  centroid gives.\<close>

lemma poi_xy_polygon:
  "centroid (Polygon vs) = (cx, cy) \<Longrightarrow> poi_xy centroid (Polygon vs) = poi_xy centroid (Point cx cy)"
  by (simp add: poi_xy_def)

lemma poi_population_polygon:
  "centroid (Polygon vs) = (cx, cy) \<Longrightarrow>
   poi_population centroid clipped_data (poi\<lparr>geometry := Polygon vs\<rparr>)
     = poi_population centroid clipped_data (poi\<lparr>geometry := Point cx cy\<rparr>)"
  by (simp add: poi_population_def poi_xy_def)

lemma base_of_polygon:
  "centroid (Polygon vs) = (cx, cy) \<Longrightarrow>
   base_of centroid (poi\<lparr>geometry := Polygon vs\<rparr>) = base_of centroid (poi\<lparr>geometry := Point cx cy\<rparr>)"
  by (simp add: base_of_def)

text \<open>
  C6 at a failing input. For the polygon feature \<open>plaza\<close>, \<open>create_buffer_zones\<close>
  buffers the polygon itself, not a point at its centroid; the two sibling paths take
  the centroid (77.601, 12.941) as the feature's position.
\<close>

theorem polygon_buffered_whole:
  "map geometry (buffer_table [plaza] 100)
     = [buffered (Polygon [(77.600, 12.940), (77.602, 12.940),
                            (77.602, 12.942), (77.600, 12.942)]) 100] \<and>
   poi_xy feature_centroid (geometry plaza) = (77.601, 12.941) \<and>
   latitude (base_of feature_centroid plaza) = 12.941 \<and>
   longitude (base_of feature_centroid plaza) = 77.601"
  by (simp add: buffer_table_def plaza_def poi_xy_def feature_centroid_def base_of_def)

section \<open>The fallback estimate\<close>

lemma py_int_floor: "0 \<le> x \<Longrightarrow> real_of_int (py_int x) \<le> x \<and> x < real_of_int (py_int x) + 1"
  by (simp add: py_int_def)

text \<open>
  C4, as the code has it. For every radius and every draw \<open>u\<close> in \<open>[0, 1)\<close>, the
  estimate is the integer part of \<open>\<pi> (radius/1000)\<^sup>2 \<sdot> 6000 \<sdot> f\<close> with the variation factor
  \<open>f = 0.8 + 0.4 u\<close> in \<open>[0.8, 1.2)\<close>. The density 6000 and the range are fixed in
  the function, and the coordinates do not enter the result.
\<close>

theorem estimate_is_truncated_product:
  assumes "0 \<le> u" "u < 1"
  shows "real_of_int (estimate_population_simple u lat lon r)
           \<le> pi * (real_of_int r / 1000)\<^sup>2 * 6000 * (0.8 + 0.4 * u) \<and>
         pi * (real_of_int r / 1000)\<^sup>2 * 6000 * (0.8 + 0.4 * u)
           < real_of_int (estimate_population_simple u lat lon r) + 1 \<and>
         0.8 \<le> 0.8 + 0.4 * u \<and> 0.8 + 0.4 * u < 1.2 \<and>
         estimate_population_simple u lat lon r = estimate_population_simple u lat' lon' r"
proof -
  have "0 \<le> pi * (real_of_int r / 1000)\<^sup>2 * 6000 * (0.8 + 0.4 * u)"
    using assms(1) by simp
  from py_int_floor [OF this] show ?thesis
    using assms by (simp add: estimate_population_simple_def Let_def)
qed

text \<open>The draw 0.5 and the radius 100: the estimate is the integer part of \<open>60 \<pi>\<close>.\<close>

theorem estimate_is_truncated_product_witness:
  "(0::real) \<le> 1/2 \<and> (1/2::real) < 1 \<and>
   real_of_int (estimate_population_simple (1/2) 12.9485 77.6015 100) \<le> 60 * pi \<and>
   60 * pi < real_of_int (estimate_population_simple (1/2) 12.9485 77.6015 100) + 1"
  using estimate_is_truncated_product
          [where u = "1/2" and lat = "12.9485" and lon = "77.6015" and r = 100]
  by (simp add: power2_eq_square)

text \<open>
  C4 as stated fails: with the draw 0.5 the variation factor is exactly 1.0, and for the
  radius 5 the estimate is 0, not \<open>\<pi> (5/1000)\<^sup>2 \<sdot> 6000\<close>.
\<close>

theorem estimate_not_exact:
  "0.8 + 0.4 * (1/2) = (1::real) \<and>
   estimate_population_simple (1/2) 12.9485 77.6015 5 = 0 \<and>
   real_of_int (estimate_population_simple (1/2) 12.9485 77.6015 5)
     \<noteq> pi * (5 / 1000)\<^sup>2 * 6000 * 1"
proof -
  have prod: "pi * (real_of_int 5 / 1000)\<^sup>2 * 6000 * (0.8 + 0.4 * (1/2)) = 3/20 * pi"
    by (simp add: power2_eq_square)
  have lo: "0 \<le> 3/20 * pi" by simp
  have hi: "3/20 * pi < 1" using pi_less_4 by simp
  have fl: "\<lfloor>3/20 * pi\<rfloor> = 0" using lo hi by (simp add: floor_eq_iff)
  have "estimate_population_simple (1/2) 12.9485 77.6015 5
          = py_int (pi * (real_of_int 5 / 1000)\<^sup>2 * 6000 * (0.8 + 0.4 * (1/2)))"
    by (simp only: estimate_population_simple_def Let_def)
  also have "\<dots> = py_int (3/20 * pi)" by (simp only: prod)
  also have "\<dots> = 0" using lo fl by (simp only: py_int_def if_True)
  finally have est: "estimate_population_simple (1/2) 12.9485 77.6015 5 = 0" .
  show ?thesis using est by (simp add: power2_eq_square)
qed

section \<open>The tag of the fallback path\<close>

lemma estimates_for_poi_tag:
  "list_all (\<lambda>r. estimation_method r = Some ''api_fallback'')
     (estimates_for_poi rnd k base_res ds)"
  by (induction ds arbitrary: k) (simp_all add: estimate_record_def Let_def)

lemma estimates_loop_tag:
  "list_all (\<lambda>r. estimation_method r = Some ''api_fallback'')
     (estimates_loop rnd k centroid pois ds)"
  by (induction pois arbitrary: k) (simp_all add: estimates_for_poi_tag)

lemma index_of_tag [simp]: "index_of (r\<lparr>estimation_method := t\<rparr>) = index_of r"
  by (simp add: index_of_def split: option.splits)

lemma value_of_tag [simp]: "value_of c (r\<lparr>estimation_method := t\<rparr>) = value_of c r"
  by (simp add: value_of_def)

lemma has_row_tag:
  "has_row (map (\<lambda>r. r\<lparr>estimation_method := t\<rparr>) rows) key = has_row rows key"
  by (simp add: has_row_def list_ex_iff)

lemma has_column_tag:
  "has_column (map (\<lambda>r. r\<lparr>estimation_method := t\<rparr>) rows) col = has_column rows col"
  by (simp add: has_column_def list_ex_iff)

lemma aggregate_tag:
  "aggregate (map (\<lambda>r. r\<lparr>estimation_method := t\<rparr>) rows) key col = aggregate rows key col"
  by (simp add: aggregate_def filter_map comp_def)

lemma pivot_table_tag:
  "pivot_table (map (\<lambda>r. r\<lparr>estimation_method := t\<rparr>) rows) = pivot_table rows"
  by (intro ext) (simp add: pivot_table_def has_row_tag has_column_tag aggregate_tag)

lemma save_results_tag:
  "save_results (map (\<lambda>r. r\<lparr>estimation_method := t\<rparr>) rows) = save_results rows"
  by (simp add: save_results_def pivot_table_tag has_column_tag)

text \<open>
  C3, as the code has it. Every record of the fallback path carries
  \<open>estimation_method = 'api_fallback'\<close>. \<open>save_results\<close> does not read the key: the
  table it returns is the same whatever the key holds, so the tag is not in the output.
\<close>

theorem fallback_tag_not_saved:
  "list_all (\<lambda>r. estimation_method r = Some ''api_fallback'')
     (create_population_estimates_api rnd centroid pois ds) \<and>
   save_results (map (\<lambda>r. r\<lparr>estimation_method := t\<rparr>) rows) = save_results rows"
  by (simp add: create_population_estimates_api_def estimates_loop_tag save_results_tag)

lemma has_column_totalI:
  "r \<in> set rows \<Longrightarrow> index_of r \<noteq> None \<Longrightarrow> buffer_distance r = d \<Longrightarrow>
   value_of ''population_total'' r \<noteq> NaN \<Longrightarrow> has_column rows (''population_total'', d)"
  unfolding has_column_def value_columns_def list_ex_iff by fastforce

lemma cafe_estimates:
  "create_population_estimates_api draws_half feature_centroid [cafe] [100, 200, 500] =
     [estimate_record (1/2) (base_of feature_centroid cafe) 100,
      estimate_record (1/2) (base_of feature_centroid cafe) 200,
      estimate_record (1/2) (base_of feature_centroid cafe) 500]"
  by (simp add: create_population_estimates_api_def draws_half_def)

text \<open>
  C3 as stated fails: the fallback records of the cafe for the radii 100, 200 and 500 are
  tagged, the same records without the tag are different records, and \<open>save_results\<close>
  returns the same table for both.
\<close>

theorem fallback_tag_dropped:
  "create_population_estimates_api draws_half feature_centroid [cafe] [100, 200, 500]
     \<noteq> map (\<lambda>r. r\<lparr>estimation_method := None\<rparr>)
           (create_population_estimates_api draws_half feature_centroid [cafe] [100, 200, 500]) \<and>
   save_results (create_population_estimates_api draws_half feature_centroid [cafe] [100, 200, 500])
     = save_results
         (map (\<lambda>r. r\<lparr>estimation_method := None\<rparr>)
            (create_population_estimates_api draws_half feature_centroid [cafe] [100, 200, 500])) \<and>
   save_results (create_population_estimates_api draws_half feature_centroid [cafe] [100, 200, 500])
     \<noteq> Inl KeyError"
proof -
  have tagged: "estimation_method (estimate_record u b d) = Some ''api_fallback''" for u b d
    by (simp add: estimate_record_def Let_def)
  have differ: "create_population_estimates_api draws_half feature_centroid [cafe] [100, 200, 500]
     \<noteq> map (\<lambda>r. r\<lparr>estimation_method := None\<rparr>)
           (create_population_estimates_api draws_half feature_centroid [cafe] [100, 200, 500])"
  proof
    assume "create_population_estimates_api draws_half feature_centroid [cafe] [100, 200, 500]
     = map (\<lambda>r. r\<lparr>estimation_method := None\<rparr>)
           (create_population_estimates_api draws_half feature_centroid [cafe] [100, 200, 500])"
    then have "map estimation_method
                 (create_population_estimates_api draws_half feature_centroid [cafe] [100, 200, 500])
               = map estimation_method
                   (map (\<lambda>r. r\<lparr>estimation_method := None\<rparr>)
                      (create_population_estimates_api draws_half feature_centroid [cafe]
                         [100, 200, 500]))"
      by simp
    then show False by (simp add: cafe_estimates tagged)
  qed
  have idx: "index_of (estimate_record u (base_of feature_centroid cafe) d) \<noteq> None" for u d
    by (simp add: index_of_def estimate_record_def Let_def base_of_def cafe_def)
  have dist: "buffer_distance (estimate_record u b d) = d" for u b d
    by (simp add: estimate_record_def Let_def)
  have val: "value_of ''population_total'' (estimate_record u b d) \<noteq> NaN" for u b d
    by (simp add: value_of_def estimate_record_def Let_def)
  have col: "has_column
               (create_population_estimates_api draws_half feature_centroid [cafe] [100, 200, 500])
               (''population_total'', d)" if "d = 100 \<or> d = 200 \<or> d = 500" for d
    using that
    by (intro has_column_totalI [where r = "estimate_record (1/2) (base_of feature_centroid cafe) d"]
          idx dist val) (auto simp: cafe_estimates)
  have saved: "save_results
                 (create_population_estimates_api draws_half feature_centroid [cafe] [100, 200, 500])
               \<noteq> Inl KeyError"
    by (simp add: save_results_def col)
  show ?thesis using differ saved by (simp add: save_results_tag)
qed

end
